theory Spec2Isabelle
  imports Main "HOL-Library.Word" "HOL-Library.Signed_Division"
begin

section \<open>Go integers and formatting\<close>

text \<open>
  Go's \<^verbatim>\<open>int\<close> is a 64-bit two's complement integer on the supported platforms.
  It is modelled as an \<^typ>\<open>int\<close> in the range of \<open>is_int64\<close>; every addition,
  subtraction and multiplication of the source is followed by \<open>wrap64\<close>, and the
  source's \<^verbatim>\<open>/\<close> (truncating towards zero) is \<open>sdiv\<close>.
\<close>

definition is_int64 :: "int \<Rightarrow> bool" where
  "is_int64 x \<longleftrightarrow> - (2 ^ 63) \<le> x \<and> x < 2 ^ 63"

definition wrap64 :: "int \<Rightarrow> int" where
  "wrap64 x = (x + 2 ^ 63) mod 2 ^ 64 - 2 ^ 63"

text \<open>\<^verbatim>\<open>%d\<close> of a length: the decimal digits of a natural number.\<close>

definition digit_char :: "nat \<Rightarrow> char" where
  "digit_char d = ''0123456789'' ! d"

function itoa :: "nat \<Rightarrow> string" where
  "itoa n = (if n < 10 then [digit_char n] else itoa (n div 10) @ [digit_char (n mod 10)])"
  by pat_completeness auto
termination
  by (relation "measure id") auto

declare itoa.simps [simp del]

section \<open>Binary detection (commands.go, isBinaryFile)\<close>

type_synonym byte = "8 word"

text \<open>
  The condition of the loop body: the byte is none of tab, LF, CR, space, and lies
  outside 32..126 and outside 128..191.
\<close>

definition isNonText :: "byte \<Rightarrow> bool" where
  "isNonText b \<longleftrightarrow>
     b \<notin> set [9, 10, 13, 32] \<and> (b < 32 \<or> b > 126) \<and> (b < 128 \<or> b > 191)"

text \<open>
  The loop \<^verbatim>\<open>for i := 0; i < sampleSize; i++\<close> reads \<^verbatim>\<open>data[0 .. sampleSize-1]\<close> in
  order; it is run here over that prefix, with the counter as accumulator.
\<close>

fun nonTextLoop :: "byte list \<Rightarrow> nat \<Rightarrow> nat" where
  "nonTextLoop [] nonTextCount = nonTextCount"
| "nonTextLoop (b # bs) nonTextCount =
     nonTextLoop bs (if isNonText b then nonTextCount + 1 else nonTextCount)"

definition isBinaryFile :: "byte list \<Rightarrow> bool" where
  "isBinaryFile data =
     (if 0 \<in> set data then True
      else if length data > 0 then
        (let sampleSize = (if length data > 8192 then 8192 else length data);
             nonTextCount = nonTextLoop (take sampleSize data) 0
         in if sampleSize > 0 \<and> (nonTextCount * 100) div sampleSize > 30 then True
            else False)
      else False)"

text \<open>
  The classification in the words of the specification: the sampled prefix is the first
  8 KiB; a byte is allowed when it is tab, LF, CR, space, printable ASCII 32..126 or a
  UTF-8 continuation byte 128..191; the buffer is binary when the prefix holds a NUL or
  more than 30 percent of the sampled bytes are not allowed.
\<close>

definition allowedByte :: "byte \<Rightarrow> bool" where
  "allowedByte b \<longleftrightarrow>
     b = 9 \<or> b = 10 \<or> b = 13 \<or> b = 32 \<or> (32 \<le> b \<and> b \<le> 126) \<or> (128 \<le> b \<and> b \<le> 191)"

definition outsideAllowed :: "byte \<Rightarrow> bool" where
  "outsideAllowed b \<longleftrightarrow> \<not> allowedByte b"

definition sampledPrefix :: "byte list \<Rightarrow> byte list" where
  "sampledPrefix data = take 8192 data"

definition outsideCount :: "byte list \<Rightarrow> nat" where
  "outsideCount data = length (filter outsideAllowed (sampledPrefix data))"

definition spec_isBinary :: "byte list \<Rightarrow> bool" where
  "spec_isBinary data \<longleftrightarrow>
     0 \<in> set (sampledPrefix data)
     \<or> 30 * length (sampledPrefix data) < 100 * outsideCount data"

section \<open>Layout (ui, NewLayout)\<close>

record Layout =
  TotalWidth :: int
  TotalHeight :: int
  ListWidth :: int
  PreviewWidth :: int
  ContentHeight :: int

definition NewLayout :: "int \<Rightarrow> int \<Rightarrow> Layout" where
  "NewLayout width height =
     (let l = \<lparr>TotalWidth = width, TotalHeight = height, ListWidth = 0,
                PreviewWidth = 0, ContentHeight = wrap64 (height - 5)\<rparr>;
          l = (if ContentHeight l < 5 then l\<lparr>ContentHeight := 5\<rparr> else l);
          l = (if width < 100 then
                 l\<lparr>ListWidth := wrap64 (width - 2), PreviewWidth := 0\<rparr>
               else if width < 140 then
                 (let l = l\<lparr>ListWidth := width sdiv 2\<rparr>
                  in l\<lparr>PreviewWidth := wrap64 (wrap64 (width - ListWidth l) - 2)\<rparr>)
               else
                 (let l = l\<lparr>ListWidth := wrap64 (width * 2) sdiv 5\<rparr>
                  in l\<lparr>PreviewWidth := wrap64 (wrap64 (width - ListWidth l) - 2)\<rparr>));
          l = (if ListWidth l < 30 then l\<lparr>ListWidth := 30, PreviewWidth := 0\<rparr> else l);
          l = (if PreviewWidth l < 30 then l\<lparr>PreviewWidth := 0\<rparr> else l)
      in l)"

definition HasPreviewPane :: "Layout \<Rightarrow> bool" where
  "HasPreviewPane l \<longleftrightarrow> PreviewWidth l > 0"

definition ListHeight :: "Layout \<Rightarrow> int" where
  "ListHeight l = wrap64 (ContentHeight l - 2)"

definition PreviewHeight :: "Layout \<Rightarrow> int" where
  "PreviewHeight l = wrap64 (ContentHeight l - 2)"

section \<open>Repository data (package git)\<close>

datatype FileStatus = StatusStaged | StatusUnstaged | StatusUntracked

record GitStatus =
  Staged :: "string list"
  Unstaged :: "string list"
  Untracked :: "string list"
  Branch :: string
  IsClean :: bool

record CommitInfo =
  Hash :: string
  ShortHash :: string
  Message :: string
  Author :: string
  Date :: string
  IsPushed :: bool

record FileItem =
  Path :: string
  Status :: FileStatus
  StatusSymbol :: string
  Selected :: bool

definition NewFileItem :: "string \<Rightarrow> FileStatus \<Rightarrow> FileItem" where
  "NewFileItem path status =
     \<lparr>Path = path, Status = status,
      StatusSymbol = (case status of StatusStaged \<Rightarrow> ''+'' | StatusUnstaged \<Rightarrow> ''-''
                      | StatusUntracked \<Rightarrow> ''?''),
      Selected = False\<rparr>"

definition StagedCount :: "GitStatus \<Rightarrow> nat" where
  "StagedCount s = length (Staged s)"

text \<open>Unstaged files first, then staged, then untracked.\<close>

definition AllFiles :: "GitStatus \<Rightarrow> FileItem list" where
  "AllFiles s =
     map (\<lambda>f. NewFileItem f StatusUnstaged) (Unstaged s)
     @ map (\<lambda>f. NewFileItem f StatusStaged) (Staged s)
     @ map (\<lambda>f. NewFileItem f StatusUntracked) (Untracked s)"

section \<open>Messages and commands\<close>

text \<open>
  An \<^verbatim>\<open>error\<close> value is modelled by the text of its \<^verbatim>\<open>Error()\<close>;
  \<open>None\<close> is \<^verbatim>\<open>nil\<close>.
\<close>

type_synonym error = "string option"

record gitStageMsg =
  s_files :: "string list"
  s_err :: error

record gitUnstageMsg =
  u_files :: "string list"
  u_err :: error

record gitDiffMsg =
  d_file :: string
  d_content :: string
  d_err :: error

record gitCommitMsg =
  c_success :: bool
  c_err :: error
  c_message :: string

record gitAmendMsg =
  a_success :: bool
  a_err :: error
  a_message :: string

text \<open>
  The messages the update loop receives. A key message is represented by its
  \<^verbatim>\<open>String()\<close>, which is all the handlers read. \<open>OtherMsg\<close> stands for the
  messages of the terminal library that no case of \<^verbatim>\<open>Update\<close> names (mouse events,
  cursor blinks, ...).
\<close>

datatype Msg =
    KeyMsg string
  | WindowSizeMsg int int
  | GitStatusMsg GitStatus
  | ErrorMsg string
  | StatusMsg string
  | GitStageMsg gitStageMsg
  | GitUnstageMsg gitUnstageMsg
  | GitRefreshMsg
  | GitDiffMsg gitDiffMsg
  | GitCommitMsg gitCommitMsg
  | GitHeadInfoMsg "CommitInfo option"
  | GitAmendMsg gitAmendMsg
  | OtherMsg nat

text \<open>
  A command is a unit of work that the runtime executes off the update loop and whose
  result message is fed back to \<^verbatim>\<open>Update\<close>. The constructors name the closures
  the source builds; \<open>Tick d msg\<close> delivers \<open>msg\<close> after \<open>d\<close> seconds, \<open>EmitMsg\<close>
  is a closure returning a constant message, \<open>WidgetCmd\<close> a command made by a
  component of the terminal library.
\<close>

datatype Cmd =
    CmdNil
  | Quit
  | Tick nat Msg
  | EmitMsg Msg
  | FetchGitStatus
  | RefreshStatusCmd
  | FetchDiffCmd FileItem
  | ToggleSelectionCmd "FileItem list"
  | CommitCmd string string
  | AmendMessageCmd string
  | SoftResetHeadCmd
  | FetchHeadInfo
  | WidgetCmd nat
  | Batch "Cmd list"

section \<open>Components of the terminal library\<close>

text \<open>
  The list, viewport, text area and text input are components of an external library.
  Their state is modelled by the values the program reads back (items and cursor index,
  sizes, content, scroll offset, text value and focus). How they react to a message
  (\<^verbatim>\<open>Update\<close>), how the viewport scrolls, what the viewport does with a new content
  (\<^verbatim>\<open>SetContent\<close> stores it and may move the scroll offset) and what the text area
  does with a new value (\<^verbatim>\<open>SetValue\<close> may rewrite the text it is given) is the
  library's business and is taken as a parameter, \<open>Widgets\<close>. The remaining setters
  store their argument.
\<close>

record ListModel =
  items :: "FileItem list"
  index :: int
  l_width :: int
  l_height :: int

record Viewport =
  Width :: int
  Height :: int
  vp_content :: string
  YOffset :: int

record TextArea =
  ta_value :: string
  ta_focused :: bool

record TextInput =
  ti_value :: string
  ti_focused :: bool

record Widgets =
  list_Update :: "Msg \<Rightarrow> ListModel \<Rightarrow> ListModel \<times> Cmd"
  viewport_Update :: "Msg \<Rightarrow> Viewport \<Rightarrow> Viewport \<times> Cmd"
  viewport_LineUp :: "int \<Rightarrow> Viewport \<Rightarrow> Viewport"
  viewport_LineDown :: "int \<Rightarrow> Viewport \<Rightarrow> Viewport"
  viewport_SetContent :: "string \<Rightarrow> Viewport \<Rightarrow> Viewport"
  textarea_Update :: "Msg \<Rightarrow> TextArea \<Rightarrow> TextArea \<times> Cmd"
  textarea_SetValue :: "string \<Rightarrow> TextArea \<Rightarrow> TextArea"
  textinput_Update :: "Msg \<Rightarrow> TextInput \<Rightarrow> TextInput \<times> Cmd"

definition SetItems :: "FileItem list \<Rightarrow> ListModel \<Rightarrow> ListModel" where
  "SetItems i l = l\<lparr>items := i\<rparr>"

definition Select :: "int \<Rightarrow> ListModel \<Rightarrow> ListModel" where
  "Select i l = l\<lparr>index := i\<rparr>"

section \<open>Key bindings (ui, DefaultKeyMap)\<close>

record KeyMap =
  Up :: "string list"
  Down :: "string list"
  PageUp :: "string list"
  PageDown :: "string list"
  Home :: "string list"
  End :: "string list"
  SelectKey :: "string list"
  SelectAll :: "string list"
  Deselect :: "string list"
  Apply :: "string list"
  Commit :: "string list"
  ModifyHead :: "string list"
  Search :: "string list"
  TogglePreview :: "string list"
  ToggleHelp :: "string list"
  QuitKey :: "string list"

definition DefaultKeyMap :: KeyMap where
  "DefaultKeyMap =
     \<lparr>Up = [''up'', ''k''], Down = [''down'', ''j''], PageUp = [''pgup'', ''b''],
      PageDown = [''pgdn'', ''f''], Home = [''home'', ''g''], End = [''end'', ''G''],
      SelectKey = [''space'', ''tab''], SelectAll = [''a''], Deselect = [''d''],
      Apply = [''enter''], Commit = [''c''], ModifyHead = [''m''], Search = [''/''],
      TogglePreview = [''p'', ''P''], ToggleHelp = [''?''], QuitKey = [''q'', ''ctrl+c'']\<rparr>"

text \<open>
  The bindings \<^verbatim>\<open>Select\<close> and \<^verbatim>\<open>Quit\<close> are the fields \<open>SelectKey\<close> and
  \<open>QuitKey\<close>, since \<open>Select\<close> is the list's method and \<open>Quit\<close> the command.
  \<^verbatim>\<open>key.Matches\<close>: the key's string is one of the binding's keys.
\<close>

definition Matches :: "string \<Rightarrow> string list \<Rightarrow> bool" where
  "Matches k binding \<longleftrightarrow> k \<in> set binding"

section \<open>The application model (main.go)\<close>

datatype AppState =
  StateFileList | StateCommitMessage | StateCommitDate | StateModifyHead | StateHelp

datatype CommitState = CommitStateMessage | CommitStateDate | CommitStateConfirm

datatype HeadModifyState =
  HeadModifyStateMenu | HeadModifyStateAmendMessage | HeadModifyStateAmendFiles

text \<open>
  The fields of \<^verbatim>\<open>Model\<close> that the update loop reads or writes. \<^verbatim>\<open>gitClient\<close> is the
  handle of the backend: the commands receive the backend as an argument when they are
  run (section Commands). \<^verbatim>\<open>selectedFiles\<close> (\<^verbatim>\<open>map[int]bool\<close>) and \<^verbatim>\<open>diffCache\<close>
  (\<^verbatim>\<open>map[string]string\<close>) are maps; reading a missing position of the first gives
  \<^verbatim>\<open>false\<close>. The field \<^verbatim>\<open>list\<close> is \<open>list_w\<close> here.
\<close>

record Model =
  state :: AppState
  width :: int
  height :: int
  ready :: bool
  err :: string
  status :: string
  processing :: bool
  files :: "FileItem list"
  gitStatus :: GitStatus
  list_w :: ListModel
  viewport :: Viewport
  keys :: KeyMap
  selectedFiles :: "int \<rightharpoonup> bool"
  showPreview :: bool
  previewFocused :: bool
  lastFileIndex :: int
  previewContent :: string
  diffCache :: "string \<rightharpoonup> string"
  layout :: Layout
  commitTextarea :: TextArea
  commitInput :: TextInput
  commitMessage :: string
  commitDate :: string
  commitState :: CommitState
  headInfo :: "CommitInfo option"
  headModifyState :: HeadModifyState
  headMessageTextarea :: TextArea

definition isSelected :: "(int \<rightharpoonup> bool) \<Rightarrow> int \<Rightarrow> bool" where
  "isSelected sel i \<longleftrightarrow> sel i = Some True"

definition NewModel :: Model where
  "NewModel =
     \<lparr>state = StateFileList, width = 0, height = 0, ready = False, err = [], status = [],
      processing = False, files = [],
      gitStatus = \<lparr>Staged = [], Unstaged = [], Untracked = [], Branch = [], IsClean = False\<rparr>,
      list_w = \<lparr>items = [], index = 0, l_width = 0, l_height = 0\<rparr>,
      viewport = \<lparr>Width = 0, Height = 0, vp_content = [], YOffset = 0\<rparr>,
      keys = DefaultKeyMap, selectedFiles = Map.empty, showPreview = True,
      previewFocused = False, lastFileIndex = - 1, previewContent = [],
      diffCache = Map.empty, layout = NewLayout 80 24,
      commitTextarea = \<lparr>ta_value = [], ta_focused = False\<rparr>,
      commitInput = \<lparr>ti_value = [], ti_focused = False\<rparr>,
      commitMessage = [], commitDate = [], commitState = CommitStateMessage,
      headInfo = None, headModifyState = HeadModifyStateMenu,
      headMessageTextarea = \<lparr>ta_value = [], ta_focused = False\<rparr>\<rparr>"

definition Init :: "Model \<Rightarrow> Cmd" where
  "Init m = FetchGitStatus"

definition toggleSelection :: "int \<Rightarrow> Model \<Rightarrow> Model" where
  "toggleSelection idx m =
     (if idx < 0 \<or> idx \<ge> int (length (files m)) then m
      else
        (let sel = (selectedFiles m)(idx \<mapsto> \<not> isSelected (selectedFiles m) idx);
             fs = (files m)[nat idx := (files m ! nat idx)\<lparr>Selected := isSelected sel idx\<rparr>]
         in m\<lparr>selectedFiles := sel, files := fs, list_w := SetItems fs (list_w m)\<rparr>))"

definition selectAll :: "Model \<Rightarrow> Model" where
  "selectAll m =
     (let sel = foldl (\<lambda>s i. s(int i \<mapsto> True)) (selectedFiles m) [0..<length (files m)];
          fs = map (\<lambda>f. f\<lparr>Selected := True\<rparr>) (files m)
      in m\<lparr>selectedFiles := sel, files := fs, list_w := SetItems fs (list_w m)\<rparr>)"

definition deselectAll :: "Model \<Rightarrow> Model" where
  "deselectAll m =
     (let fs = map (\<lambda>f. f\<lparr>Selected := False\<rparr>) (files m)
      in m\<lparr>selectedFiles := Map.empty, files := fs, list_w := SetItems fs (list_w m)\<rparr>)"

definition getSelectedFiles :: "Model \<Rightarrow> FileItem list" where
  "getSelectedFiles m =
     map snd (filter (\<lambda>(i, f). isSelected (selectedFiles m) (int i)) (enumerate 0 (files m)))"

definition clearStatus :: Cmd where
  "clearStatus = Tick 2 (StatusMsg [])"

definition clearError :: Cmd where
  "clearError = Tick 3 (ErrorMsg [])"

text \<open>
  \<^verbatim>\<open>applySelection\<close> has a pointer receiver: it sets \<^verbatim>\<open>processing\<close> on the caller's
  model and returns the command, so the model is returned with it.
\<close>

definition applySelection :: "Model \<Rightarrow> Model \<times> Cmd" where
  "applySelection m =
     (let selected = getSelectedFiles m
      in if length selected = 0 then (m, EmitMsg (StatusMsg ''No files selected''))
         else (m\<lparr>processing := True\<rparr>,
               Batch [ToggleSelectionCmd selected, EmitMsg GitRefreshMsg]))"

definition refreshStatus :: Cmd where
  "refreshStatus = RefreshStatusCmd"

definition getCurrentFile :: "Model \<Rightarrow> FileItem option" where
  "getCurrentFile m =
     (if index (list_w m) < 0 \<or> index (list_w m) \<ge> int (length (files m)) then None
      else Some (files m ! nat (index (list_w m))))"

definition enterCommitMode :: "Model \<Rightarrow> Model" where
  "enterCommitMode m =
     m\<lparr>state := StateCommitMessage, commitState := CommitStateMessage,
       commitMessage := [], commitDate := [],
       commitTextarea := (commitTextarea m)\<lparr>ta_value := [], ta_focused := True\<rparr>\<rparr>"

definition proceedToDateInput :: "Model \<Rightarrow> Model" where
  "proceedToDateInput m =
     m\<lparr>commitState := CommitStateDate,
       commitInput := (commitInput m)\<lparr>ti_value := [], ti_focused := True\<rparr>\<rparr>"

definition cancelCommit :: "Model \<Rightarrow> Model" where
  "cancelCommit m =
     m\<lparr>state := StateFileList, commitMessage := [], commitDate := [],
       commitTextarea := (commitTextarea m)\<lparr>ta_focused := False\<rparr>,
       commitInput := (commitInput m)\<lparr>ti_focused := False\<rparr>\<rparr>"

definition enterModifyHeadMode :: "Model \<Rightarrow> Model" where
  "enterModifyHeadMode m = m\<lparr>state := StateModifyHead, headModifyState := HeadModifyStateMenu\<rparr>"

definition enterAmendMessageMode :: "Widgets \<Rightarrow> Model \<Rightarrow> Model" where
  "enterAmendMessageMode W m =
     (let m = m\<lparr>headModifyState := HeadModifyStateAmendMessage\<rparr>;
          m = (case headInfo m of
                 Some info \<Rightarrow>
                   m\<lparr>headMessageTextarea :=
                       textarea_SetValue W (Message info) (headMessageTextarea m)\<rparr>
               | None \<Rightarrow> m)
      in m\<lparr>headMessageTextarea := (headMessageTextarea m)\<lparr>ta_focused := True\<rparr>\<rparr>)"

definition cancelModifyHead :: "Model \<Rightarrow> Model" where
  "cancelModifyHead m =
     m\<lparr>state := StateFileList, headModifyState := HeadModifyStateMenu,
       headMessageTextarea := (headMessageTextarea m)\<lparr>ta_focused := False\<rparr>,
       headInfo := None\<rparr>"

section \<open>The update loop (update.go)\<close>

text \<open>\<^verbatim>\<open>len(strings.Split(s, "\n"))\<close>: one more than the number of line feeds.\<close>

definition lineCount :: "string \<Rightarrow> int" where
  "lineCount s = int (length (filter (\<lambda>c. c = CHR 0x0A) s)) + 1"

text \<open>
  The cases Up, Down, Home and End of \<^verbatim>\<open>handleFileListKeys\<close> end with the same
  statements: the list handles the key, and if the cursor now stands on another file
  the preview is emptied and a diff fetch for that file is dispatched.
\<close>

definition listNavigate :: "Widgets \<Rightarrow> string \<Rightarrow> Model \<Rightarrow> Model \<times> Cmd" where
  "listNavigate W k m =
     (let (l, cmd) = list_Update W (KeyMsg k) (list_w m);
          m = m\<lparr>list_w := l\<rparr>;
          currentIndex = index (list_w m)
      in if showPreview m \<and> currentIndex \<ge> 0 \<and> currentIndex \<noteq> lastFileIndex m then
           (let m = m\<lparr>lastFileIndex := currentIndex\<rparr>
            in case getCurrentFile m of
                 Some currentFile \<Rightarrow>
                   (m\<lparr>previewContent := []\<rparr>, Batch [cmd, FetchDiffCmd currentFile])
               | None \<Rightarrow> (m, cmd))
         else (m, cmd))"

text \<open>
  In the Apply case the source returns \<^verbatim>\<open>m, m.applySelection()\<close>. The language
  leaves open whether \<^verbatim>\<open>m\<close> is read before or after the call; the Go compiler
  runs the call first and copies the model into the result afterwards, so the returned
  model carries the flag that \<^verbatim>\<open>applySelection\<close> sets. No statement below depends
  on the flag after this key.
\<close>

definition handleFileListKeys :: "Widgets \<Rightarrow> string \<Rightarrow> Model \<Rightarrow> Model \<times> Cmd" where
  "handleFileListKeys W k m =
     (if Matches k (QuitKey (keys m)) then (m, Quit)
      else if Matches k (SelectKey (keys m)) then
        (toggleSelection (index (list_w m)) m, CmdNil)
      else if Matches k (SelectAll (keys m)) then (selectAll m, CmdNil)
      else if Matches k (Deselect (keys m)) then (deselectAll m, CmdNil)
      else if Matches k (TogglePreview (keys m)) then
        (if showPreview m \<and> HasPreviewPane (layout m)
         then (m\<lparr>previewFocused := \<not> previewFocused m\<rparr>, CmdNil)
         else (m, CmdNil))
      else if Matches k (ToggleHelp (keys m)) then
        (if state m = StateFileList then (m\<lparr>state := StateHelp\<rparr>, CmdNil)
         else (m\<lparr>state := StateFileList\<rparr>, CmdNil))
      else if Matches k (Up (keys m)) then
        (if previewFocused m \<and> Height (viewport m) < lineCount (previewContent m)
         then (m\<lparr>viewport := viewport_LineUp W 3 (viewport m)\<rparr>, CmdNil)
         else listNavigate W k m)
      else if Matches k (Down (keys m)) then
        (if previewFocused m \<and> Height (viewport m) < lineCount (previewContent m)
         then (m\<lparr>viewport := viewport_LineDown W 3 (viewport m)\<rparr>, CmdNil)
         else listNavigate W k m)
      else if Matches k (Home (keys m)) then listNavigate W k m
      else if Matches k (End (keys m)) then listNavigate W k m
      else if Matches k (Apply (keys m)) then
        (let selected = getSelectedFiles m
         in if length selected = 0 then (m\<lparr>status := ''No files selected''\<rparr>, clearStatus)
            else applySelection
                   (m\<lparr>status := ''Processing '' @ itoa (length selected) @ '' file(s)...''\<rparr>))
      else if Matches k (Commit (keys m)) then
        (if StagedCount (gitStatus m) = 0 then (m\<lparr>status := ''No files staged''\<rparr>, clearStatus)
         else (enterCommitMode m, CmdNil))
      else if Matches k (ModifyHead (keys m)) then
        ((enterModifyHeadMode m)\<lparr>processing := True\<rparr>, FetchHeadInfo)
      else (m, CmdNil))"

definition handleCommitMessageKeys :: "Widgets \<Rightarrow> string \<Rightarrow> Model \<Rightarrow> Model \<times> Cmd" where
  "handleCommitMessageKeys W k m =
     (if k = ''ctrl+d'' then
        (let m = m\<lparr>commitMessage := ta_value (commitTextarea m)\<rparr>
         in if commitMessage m = [] then
              (m\<lparr>err := ''Commit message cannot be empty''\<rparr>, clearError)
            else (proceedToDateInput m, CmdNil))
      else if k = ''esc'' then (cancelCommit m, CmdNil)
      else
        (let (ta, cmd) = textarea_Update W (KeyMsg k) (commitTextarea m)
         in (m\<lparr>commitTextarea := ta\<rparr>, cmd)))"

definition handleCommitDateKeys :: "Widgets \<Rightarrow> string \<Rightarrow> Model \<Rightarrow> Model \<times> Cmd" where
  "handleCommitDateKeys W k m =
     (if k = ''enter'' then
        (let m = m\<lparr>commitDate := ti_value (commitInput m)\<rparr>;
             m = m\<lparr>commitInput := (commitInput m)\<lparr>ti_focused := False\<rparr>\<rparr>;
             m = m\<lparr>commitTextarea := (commitTextarea m)\<lparr>ta_focused := False\<rparr>\<rparr>
         in (m, CommitCmd (commitMessage m) (commitDate m)))
      else if k = ''esc'' then
        (m\<lparr>commitState := CommitStateMessage,
           commitTextarea := (commitTextarea m)\<lparr>ta_focused := True\<rparr>,
           commitInput := (commitInput m)\<lparr>ti_value := []\<rparr>\<rparr>, CmdNil)
      else
        (let (ti, cmd) = textinput_Update W (KeyMsg k) (commitInput m)
         in (m\<lparr>commitInput := ti\<rparr>, cmd)))"

definition handleCommitKeys :: "Widgets \<Rightarrow> string \<Rightarrow> Model \<Rightarrow> Model \<times> Cmd" where
  "handleCommitKeys W k m =
     (case commitState m of
        CommitStateMessage \<Rightarrow> handleCommitMessageKeys W k m
      | CommitStateDate \<Rightarrow> handleCommitDateKeys W k m
      | CommitStateConfirm \<Rightarrow> (m, CmdNil))"

definition handleHelpKeys :: "string \<Rightarrow> Model \<Rightarrow> Model \<times> Cmd" where
  "handleHelpKeys k m =
     (if Matches k (ToggleHelp (keys m)) \<or> Matches k (QuitKey (keys m))
      then (m\<lparr>state := StateFileList\<rparr>, CmdNil)
      else (m, CmdNil))"

definition handleHeadMenuKeys :: "Widgets \<Rightarrow> string \<Rightarrow> Model \<Rightarrow> Model \<times> Cmd" where
  "handleHeadMenuKeys W k m =
     (if k = ''m'' then (enterAmendMessageMode W m, CmdNil)
      else if k = ''f'' then (m\<lparr>processing := True\<rparr>, SoftResetHeadCmd)
      else if k = ''esc'' \<or> k = ''q'' then (cancelModifyHead m, CmdNil)
      else (m, CmdNil))"

definition handleHeadAmendMessageKeys :: "Widgets \<Rightarrow> string \<Rightarrow> Model \<Rightarrow> Model \<times> Cmd" where
  "handleHeadAmendMessageKeys W k m =
     (if k = ''ctrl+d'' then
        (let newMessage = ta_value (headMessageTextarea m)
         in if newMessage = [] then
              (m\<lparr>err := ''Commit message cannot be empty''\<rparr>, clearError)
            else
              (m\<lparr>processing := True,
                 headMessageTextarea := (headMessageTextarea m)\<lparr>ta_focused := False\<rparr>\<rparr>,
               AmendMessageCmd newMessage))
      else if k = ''esc'' then
        (m\<lparr>headModifyState := HeadModifyStateMenu,
           headMessageTextarea := (headMessageTextarea m)\<lparr>ta_focused := False, ta_value := []\<rparr>\<rparr>,
         CmdNil)
      else
        (let (ta, cmd) = textarea_Update W (KeyMsg k) (headMessageTextarea m)
         in (m\<lparr>headMessageTextarea := ta\<rparr>, cmd)))"

definition handleHeadAmendFilesKeys :: "string \<Rightarrow> Model \<Rightarrow> Model \<times> Cmd" where
  "handleHeadAmendFilesKeys k m = (cancelModifyHead m, CmdNil)"

definition handleModifyHeadKeys :: "Widgets \<Rightarrow> string \<Rightarrow> Model \<Rightarrow> Model \<times> Cmd" where
  "handleModifyHeadKeys W k m =
     (case headModifyState m of
        HeadModifyStateMenu \<Rightarrow> handleHeadMenuKeys W k m
      | HeadModifyStateAmendMessage \<Rightarrow> handleHeadAmendMessageKeys W k m
      | HeadModifyStateAmendFiles \<Rightarrow> handleHeadAmendFilesKeys k m)"

definition handleKeyMsg :: "Widgets \<Rightarrow> string \<Rightarrow> Model \<Rightarrow> Model \<times> Cmd" where
  "handleKeyMsg W k m =
     (case state m of
        StateFileList \<Rightarrow> handleFileListKeys W k m
      | StateCommitMessage \<Rightarrow> handleCommitKeys W k m
      | StateCommitDate \<Rightarrow> handleCommitKeys W k m
      | StateModifyHead \<Rightarrow> handleModifyHeadKeys W k m
      | StateHelp \<Rightarrow> handleHelpKeys k m)"

text \<open>
  \<^verbatim>\<open>%v\<close> of an error is its text. The statements after the \<^verbatim>\<open>switch\<close> of
  \<^verbatim>\<open>Update\<close> (list update, diff fetch on a moved cursor, viewport update) are
  \<open>updateFallthrough\<close>; only messages that no case names reach them.
\<close>

definition updateFallthrough :: "Widgets \<Rightarrow> Msg \<Rightarrow> Model \<Rightarrow> Model \<times> Cmd" where
  "updateFallthrough W msg m =
     (let (l, cmd) = list_Update W msg (list_w m);
          m = m\<lparr>list_w := l\<rparr>;
          vpCmd = snd (viewport_Update W msg (viewport m))
      in if showPreview m \<and> ready m \<and> state m = StateFileList
            \<and> index (list_w m) \<ge> 0 \<and> index (list_w m) \<noteq> lastFileIndex m then
           (let m = m\<lparr>lastFileIndex := index (list_w m)\<rparr>
            in case getCurrentFile m of
                 Some currentFile \<Rightarrow> (m\<lparr>previewContent := []\<rparr>, FetchDiffCmd currentFile)
               | None \<Rightarrow> (m, Batch [cmd, vpCmd]))
         else (m, Batch [cmd, vpCmd]))"

definition Update :: "Widgets \<Rightarrow> Msg \<Rightarrow> Model \<Rightarrow> Model \<times> Cmd" where
  "Update W msg m =
     (case msg of
        KeyMsg k \<Rightarrow>
          (if err m \<noteq> [] then
             (if Matches k (QuitKey (keys m)) then (m, Quit) else (m, CmdNil))
           else handleKeyMsg W k m)
      | WindowSizeMsg w h \<Rightarrow>
          (let m = m\<lparr>width := w, height := h, ready := True\<rparr>;
               m = m\<lparr>layout := NewLayout (width m) (height m)\<rparr>;
               paneHeight = ListHeight (layout m);
               viewportHeight = wrap64 (paneHeight - 3);
               viewportHeight = (if viewportHeight < 1 then 1 else viewportHeight);
               m = (if HasPreviewPane (layout m) \<and> showPreview m then
                      m\<lparr>list_w := (list_w m)\<lparr>l_width := wrap64 (ListWidth (layout m) - 4)\<rparr>,
                        viewport := (viewport m)\<lparr>Width := wrap64 (PreviewWidth (layout m) - 4)\<rparr>\<rparr>
                    else
                      m\<lparr>list_w := (list_w m)\<lparr>l_width := wrap64 (width m - 4)\<rparr>,
                        viewport := (viewport m)\<lparr>Width := wrap64 (width m - 4)\<rparr>\<rparr>);
               m = m\<lparr>list_w := (list_w m)\<lparr>l_height := paneHeight\<rparr>,
                     viewport := (viewport m)\<lparr>Height := viewportHeight\<rparr>\<rparr>
           in if showPreview m \<and> length (files m) > 0 then
                (case getCurrentFile m of
                   Some currentFile \<Rightarrow> (m, FetchDiffCmd currentFile)
                 | None \<Rightarrow> (m, CmdNil))
              else (m, CmdNil))
      | GitStatusMsg st \<Rightarrow>
          (let m = m\<lparr>gitStatus := st, files := AllFiles st\<rparr>;
               m = m\<lparr>list_w := SetItems (files m) (list_w m)\<rparr>;
               m = (if index (list_w m) < 0 \<and> length (files m) > 0
                    then m\<lparr>list_w := Select 0 (list_w m)\<rparr> else m)
           in if showPreview m \<and> length (files m) > 0 \<and> ready m \<and> index (list_w m) \<ge> 0 then
                (let m = m\<lparr>lastFileIndex := index (list_w m)\<rparr>
                 in case getCurrentFile m of
                      Some currentFile \<Rightarrow> (m, FetchDiffCmd currentFile)
                    | None \<Rightarrow> (m\<lparr>lastFileIndex := - 1\<rparr>, CmdNil))
              else (m\<lparr>lastFileIndex := - 1\<rparr>, CmdNil))
      | ErrorMsg e \<Rightarrow>
          (if e = [] then (m\<lparr>err := e\<rparr>, CmdNil) else (m\<lparr>err := e\<rparr>, clearError))
      | StatusMsg s \<Rightarrow>
          (if s = [] then (m\<lparr>status := s\<rparr>, CmdNil) else (m\<lparr>status := s\<rparr>, clearStatus))
      | GitStageMsg sm \<Rightarrow>
          (let m = m\<lparr>processing := False\<rparr>
           in case s_err sm of
                Some e \<Rightarrow> (m\<lparr>err := e\<rparr>, clearError)
              | None \<Rightarrow>
                  (deselectAll
                     (m\<lparr>status := ''Staged '' @ itoa (length (s_files sm)) @ '' file(s)''\<rparr>),
                   Batch [refreshStatus, clearStatus]))
      | GitUnstageMsg um \<Rightarrow>
          (let m = m\<lparr>processing := False\<rparr>
           in case u_err um of
                Some e \<Rightarrow> (m\<lparr>err := e\<rparr>, clearError)
              | None \<Rightarrow>
                  (deselectAll
                     (m\<lparr>status := ''Unstaged '' @ itoa (length (u_files um)) @ '' file(s)''\<rparr>),
                   Batch [refreshStatus, clearStatus]))
      | GitRefreshMsg \<Rightarrow> (m, refreshStatus)
      | GitDiffMsg dm \<Rightarrow>
          (let m = (case d_err dm of
                      Some e \<Rightarrow> m\<lparr>previewContent := ''Error loading diff: '' @ e\<rparr>
                    | None \<Rightarrow> m\<lparr>previewContent := d_content dm\<rparr>)
           in (m\<lparr>viewport := viewport_SetContent W (previewContent m) (viewport m)\<rparr>,
               CmdNil))
      | GitCommitMsg cm \<Rightarrow>
          (case c_err cm of
             Some e \<Rightarrow> (m\<lparr>err := ''Commit failed: '' @ e\<rparr>, clearError)
           | None \<Rightarrow>
               (m\<lparr>status := c_message cm, state := StateFileList,
                  commitMessage := [], commitDate := []\<rparr>,
                Batch [refreshStatus, clearStatus]))
      | GitHeadInfoMsg info \<Rightarrow> (m\<lparr>headInfo := info\<rparr>, CmdNil)
      | GitAmendMsg am \<Rightarrow>
          (case a_err am of
             Some e \<Rightarrow> (m\<lparr>err := ''Amendment failed: '' @ e\<rparr>, clearError)
           | None \<Rightarrow>
               (m\<lparr>status := a_message am, state := StateFileList, headInfo := None\<rparr>,
                Batch [refreshStatus, clearStatus]))
      | OtherMsg n \<Rightarrow> updateFallthrough W msg m)"

section \<open>Commands (commands.go)\<close>

text \<open>
  The backend is the git client (the methods of \<^verbatim>\<open>git.Client\<close>, each of which runs
  one git process) and the file system (\<^verbatim>\<open>os.ReadFile\<close>). The model takes the
  outcome of every backend operation as a function of its arguments: \<open>Inl e\<close> or
  \<open>Some e\<close> is a failure with error text \<open>e\<close>. A command is run against the backend
  as it is at that moment, so two runs may be given two different backends.
  \<^verbatim>\<open>git.ValidateCommitDate\<close> parses dates with the standard library and is taken as
  a parameter as well.
\<close>

record Backend =
  git_Status :: "string + GitStatus"
  git_Stage :: "string list \<Rightarrow> error"
  git_Unstage :: "string list \<Rightarrow> error"
  git_Diff :: "string \<Rightarrow> bool \<Rightarrow> string + string"
  git_Commit :: "string \<Rightarrow> string \<Rightarrow> error"
  git_AmendMessage :: "string \<Rightarrow> error"
  git_SoftResetHead :: error
  git_GetHeadCommitInfo :: "string + CommitInfo"
  git_ValidateCommitDate :: "string \<Rightarrow> string + string"
  os_ReadFile :: "string \<Rightarrow> string + byte list"

text \<open>The calls a command makes to the backend, in order.\<close>

datatype BackendCall =
    CallStatus
  | CallStage "string list"
  | CallUnstage "string list"
  | CallDiff string bool
  | CallCommit string string
  | CallAmendMessage string
  | CallSoftResetHead
  | CallGetHeadCommitInfo
  | CallReadFile string

fun isDiffCall :: "BackendCall \<Rightarrow> bool" where
  "isDiffCall (CallDiff p st) = True"
| "isDiffCall c = False"

text \<open>\<^verbatim>\<open>string(contentBytes)\<close>: the same bytes as a string.\<close>

definition string_of_bytes :: "byte list \<Rightarrow> string" where
  "string_of_bytes bs = map (\<lambda>b. char_of (unat b)) bs"

definition refreshStatusCmd :: "Backend \<Rightarrow> Msg \<times> BackendCall list" where
  "refreshStatusCmd be =
     (case git_Status be of
        Inl e \<Rightarrow> (ErrorMsg (''Failed to refresh status: '' @ e), [CallStatus])
      | Inr st \<Rightarrow> (GitStatusMsg st, [CallStatus]))"

definition toggleSelectionCmd :: "Backend \<Rightarrow> FileItem list \<Rightarrow> Msg \<times> BackendCall list" where
  "toggleSelectionCmd be fs =
     (let staged = map Path (filter (\<lambda>f. Status f = StatusStaged) fs);
          unstaged = map Path (filter (\<lambda>f. Status f \<noteq> StatusStaged) fs)
      in if length unstaged > length staged then
           (case git_Stage be unstaged of
              Some e \<Rightarrow> (ErrorMsg (''Failed to stage files: '' @ e), [CallStage unstaged])
            | None \<Rightarrow>
                (StatusMsg (''Staged '' @ itoa (length unstaged) @ '' file(s)''),
                 [CallStage unstaged]))
         else
           (case git_Unstage be staged of
              Some e \<Rightarrow> (ErrorMsg (''Failed to unstage files: '' @ e), [CallUnstage staged])
            | None \<Rightarrow>
                (StatusMsg (''Unstaged '' @ itoa (length staged) @ '' file(s)''),
                 [CallUnstage staged])))"

text \<open>
  \<^verbatim>\<open>fetchDiffCmd\<close> reads and writes the diff cache through the model pointer it
  captured; the map is shared by every copy of the model, so the run takes the cache and
  returns it updated, together with the result message and the backend calls it made.
\<close>

definition readPreview :: "byte list \<Rightarrow> string" where
  "readPreview contentBytes =
     (if isBinaryFile contentBytes then ''[BINARY] File cannot be previewed''
      else string_of_bytes contentBytes)"

definition fetchDiffCmd ::
  "Backend \<Rightarrow> FileItem \<Rightarrow> (string \<rightharpoonup> string)
     \<Rightarrow> gitDiffMsg \<times> (string \<rightharpoonup> string) \<times> BackendCall list" where
  "fetchDiffCmd be file cache =
     (case cache (Path file) of
        Some content \<Rightarrow> (\<lparr>d_file = Path file, d_content = content, d_err = None\<rparr>, cache, [])
      | None \<Rightarrow>
          (case Status file of
             StatusUntracked \<Rightarrow>
               (case os_ReadFile be (Path file) of
                  Inl readErr \<Rightarrow>
                    (\<lparr>d_file = Path file, d_content = ''Error reading file: '' @ readErr,
                      d_err = None\<rparr>, cache, [CallReadFile (Path file)])
                | Inr contentBytes \<Rightarrow>
                    (let content = readPreview contentBytes
                     in (\<lparr>d_file = Path file, d_content = content, d_err = None\<rparr>,
                         cache(Path file \<mapsto> content), [CallReadFile (Path file)])))
           | st \<Rightarrow>
               (let staged = (st = StatusStaged)
                in case git_Diff be (Path file) staged of
                     Inl e \<Rightarrow>
                       (\<lparr>d_file = Path file, d_content = ''Error loading diff: '' @ e,
                         d_err = None\<rparr>, cache, [CallDiff (Path file) staged])
                   | Inr content \<Rightarrow>
                       (if content = [] then
                          (let content =
                                 (case os_ReadFile be (Path file) of
                                    Inr contentBytes \<Rightarrow> readPreview contentBytes
                                  | Inl readErr \<Rightarrow>
                                      ''(File has no changes)'' @ [CHR 0x0A, CHR 0x0A]
                                        @ ''Could not read file: '' @ readErr)
                           in (\<lparr>d_file = Path file, d_content = content, d_err = None\<rparr>,
                               cache(Path file \<mapsto> content),
                               [CallDiff (Path file) staged, CallReadFile (Path file)]))
                        else
                          (\<lparr>d_file = Path file, d_content = content, d_err = None\<rparr>,
                           cache(Path file \<mapsto> content), [CallDiff (Path file) staged])))))"

definition commitCmd :: "Backend \<Rightarrow> string \<Rightarrow> string \<Rightarrow> Msg \<times> BackendCall list" where
  "commitCmd be message date =
     (case (if date \<noteq> [] then git_ValidateCommitDate be date else Inr []) of
        Inl e \<Rightarrow> (GitCommitMsg \<lparr>c_success = False, c_err = Some e, c_message = []\<rparr>, [])
      | Inr validatedDate \<Rightarrow>
          (case git_Commit be message validatedDate of
             Some e \<Rightarrow>
               (GitCommitMsg \<lparr>c_success = False, c_err = Some e, c_message = []\<rparr>,
                [CallCommit message validatedDate])
           | None \<Rightarrow>
               (GitCommitMsg \<lparr>c_success = True, c_err = None,
                               c_message = ''[OK] Commit created successfully''\<rparr>,
                [CallCommit message validatedDate])))"

definition amendMessageCmd :: "Backend \<Rightarrow> string \<Rightarrow> Msg \<times> BackendCall list" where
  "amendMessageCmd be message =
     (if message = [] then
        (GitAmendMsg \<lparr>a_success = False, a_err = Some ''commit message cannot be empty'',
                       a_message = []\<rparr>, [])
      else
        (case git_AmendMessage be message of
           Some e \<Rightarrow>
             (GitAmendMsg \<lparr>a_success = False, a_err = Some e, a_message = []\<rparr>,
              [CallAmendMessage message])
         | None \<Rightarrow>
             (GitAmendMsg \<lparr>a_success = True, a_err = None,
                            a_message = ''[OK] Commit message amended successfully''\<rparr>,
              [CallAmendMessage message])))"

definition softResetHeadCmd :: "Backend \<Rightarrow> Msg \<times> BackendCall list" where
  "softResetHeadCmd be =
     (case git_SoftResetHead be of
        Some e \<Rightarrow>
          (GitAmendMsg \<lparr>a_success = False, a_err = Some e, a_message = []\<rparr>,
           [CallSoftResetHead])
      | None \<Rightarrow>
          (GitAmendMsg \<lparr>a_success = True, a_err = None,
                         a_message = ''[OK] HEAD soft reset successfully. Changes staged.''\<rparr>,
           [CallSoftResetHead]))"

definition fetchHeadInfo :: "Backend \<Rightarrow> Msg \<times> BackendCall list" where
  "fetchHeadInfo be =
     (case git_GetHeadCommitInfo be of
        Inl e \<Rightarrow> (ErrorMsg (''Failed to get HEAD info: '' @ e), [CallGetHeadCommitInfo])
      | Inr info \<Rightarrow> (GitHeadInfoMsg (Some info), [CallGetHeadCommitInfo]))"

text \<open>
  Two diff-fetch requests for the same path, one after the other, with nothing touching
  the cache in between: the two result messages, the cache after each request and the
  backend calls each request made. The backend may have changed between the requests.
\<close>

record TwoFetches =
  first_msg :: gitDiffMsg
  second_msg :: gitDiffMsg
  cache_after_first :: "string \<rightharpoonup> string"
  cache_after_second :: "string \<rightharpoonup> string"
  first_calls :: "BackendCall list"
  second_calls :: "BackendCall list"

definition fetchTwice ::
  "Backend \<Rightarrow> Backend \<Rightarrow> FileItem \<Rightarrow> FileItem \<Rightarrow> (string \<rightharpoonup> string) \<Rightarrow> TwoFetches" where
  "fetchTwice be1 be2 file1 file2 cache =
     (let (msg1, cache1, calls1) = fetchDiffCmd be1 file1 cache;
          (msg2, cache2, calls2) = fetchDiffCmd be2 file2 cache1
      in \<lparr>first_msg = msg1, second_msg = msg2, cache_after_first = cache1,
          cache_after_second = cache2, first_calls = calls1, second_calls = calls2\<rparr>)"

definition diffCallCount :: "TwoFetches \<Rightarrow> nat" where
  "diffCallCount r = length (filter isDiffCall (first_calls r @ second_calls r))"

section \<open>Concrete inputs for the example runs\<close>

text \<open>
  A stand-in for the terminal library in the example runs: the list moves its cursor on
  the arrow keys and stays inside the items; the viewport stores a new content and, when
  its scroll offset lies beyond the last line of it, goes to the bottom; the text area
  stores a new value; every component ignores the messages and the scroll requests.
\<close>

definition cursorUp :: "ListModel \<Rightarrow> ListModel" where
  "cursorUp l = (if index l > 0 then l\<lparr>index := index l - 1\<rparr> else l)"

definition cursorDown :: "ListModel \<Rightarrow> ListModel" where
  "cursorDown l =
     (if index l + 1 < int (length (items l)) then l\<lparr>index := index l + 1\<rparr> else l)"

definition storeContent :: "string \<Rightarrow> Viewport \<Rightarrow> Viewport" where
  "storeContent s v =
     (let v = v\<lparr>vp_content := s\<rparr>
      in if YOffset v > lineCount s - 1 then v\<lparr>YOffset := max 0 (lineCount s - Height v)\<rparr>
         else v)"

definition cursorWidgets :: Widgets where
  "cursorWidgets =
     \<lparr>list_Update = (\<lambda>msg l.
        (case msg of
           KeyMsg k \<Rightarrow>
             (if k = ''up'' \<or> k = ''k'' then (cursorUp l, CmdNil)
              else if k = ''down'' \<or> k = ''j'' then (cursorDown l, CmdNil)
              else (l, CmdNil))
         | _ \<Rightarrow> (l, CmdNil))),
      viewport_Update = (\<lambda>msg v. (v, CmdNil)),
      viewport_LineUp = (\<lambda>n v. v),
      viewport_LineDown = (\<lambda>n v. v),
      viewport_SetContent = storeContent,
      textarea_Update = (\<lambda>msg t. (t, CmdNil)),
      textarea_SetValue = (\<lambda>s t. t\<lparr>ta_value := s\<rparr>),
      textinput_Update = (\<lambda>msg t. (t, CmdNil))\<rparr>"

definition snapshot_a :: GitStatus where
  "snapshot_a =
     \<lparr>Staged = [], Unstaged = [''a.txt''], Untracked = [], Branch = ''main'', IsClean = False\<rparr>"

definition snapshot_a_staged :: GitStatus where
  "snapshot_a_staged =
     \<lparr>Staged = [''a.txt''], Unstaged = [], Untracked = [], Branch = ''main'', IsClean = False\<rparr>"

definition snapshot_ab :: GitStatus where
  "snapshot_ab =
     \<lparr>Staged = [], Unstaged = [''a.txt'', ''b.txt''], Untracked = [], Branch = ''main'',
      IsClean = False\<rparr>"

definition head_info :: CommitInfo where
  "head_info =
     \<lparr>Hash = ''0123456789abcdef'', ShortHash = ''0123456'', Message = ''init'',
      Author = ''dev'', Date = ''2 days ago'', IsPushed = False\<rparr>"

text \<open>A backend on which every operation succeeds, and one on which every operation fails.\<close>

definition backend_ok :: Backend where
  "backend_ok =
     \<lparr>git_Status = Inr snapshot_a_staged,
      git_Stage = (\<lambda>fs. None),
      git_Unstage = (\<lambda>fs. None),
      git_Diff = (\<lambda>p st. Inr (''diff of '' @ p)),
      git_Commit = (\<lambda>msg d. None),
      git_AmendMessage = (\<lambda>msg. None),
      git_SoftResetHead = None,
      git_GetHeadCommitInfo = Inr head_info,
      git_ValidateCommitDate = (\<lambda>d. Inr d),
      os_ReadFile = (\<lambda>p. Inr [])\<rparr>"

definition backend_fail :: Backend where
  "backend_fail =
     \<lparr>git_Status = Inl ''exit status 128'',
      git_Stage = (\<lambda>fs. Some ''exit status 128''),
      git_Unstage = (\<lambda>fs. Some ''exit status 128''),
      git_Diff = (\<lambda>p st. Inl ''exit status 128''),
      git_Commit = (\<lambda>msg d. Some ''exit status 128''),
      git_AmendMessage = (\<lambda>msg. Some ''exit status 128''),
      git_SoftResetHead = Some ''exit status 128'',
      git_GetHeadCommitInfo = Inl ''exit status 128'',
      git_ValidateCommitDate = (\<lambda>d. Inl ''invalid date format''),
      os_ReadFile = (\<lambda>p. Inl ''no such file or directory'')\<rparr>"

definition file_a :: FileItem where
  "file_a = NewFileItem ''a.txt'' StatusUnstaged"

definition file_b :: FileItem where
  "file_b = NewFileItem ''b.txt'' StatusUnstaged"

text \<open>
  Run 1 (stale diff). The window is sized, the status with \<open>a.txt\<close> and \<open>b.txt\<close>
  arrives and a diff of \<open>a.txt\<close> is dispatched; the user moves down to \<open>b.txt\<close>; then
  the result for \<open>a.txt\<close> arrives.
\<close>

definition stale_sized :: Model where
  "stale_sized = fst (Update cursorWidgets (WindowSizeMsg 120 40) NewModel)"

definition stale_loaded :: "Model \<times> Cmd" where
  "stale_loaded = Update cursorWidgets (GitStatusMsg snapshot_ab) stale_sized"

definition stale_moved :: "Model \<times> Cmd" where
  "stale_moved = Update cursorWidgets (KeyMsg ''down'') (fst stale_loaded)"

definition stale_result :: gitDiffMsg where
  "stale_result = fst (fetchDiffCmd backend_ok file_a (diffCache (fst stale_moved)))"

definition stale_applied :: "Model \<times> Cmd" where
  "stale_applied = Update cursorWidgets (GitDiffMsg stale_result) (fst stale_moved)"

text \<open>A viewport showing a five-line text, scrolled down by three lines.\<close>

definition scrolled_viewport :: Viewport where
  "scrolled_viewport =
     \<lparr>Width = 54, Height = 30,
      vp_content = ''1'' @ [CHR 0x0A] @ ''2'' @ [CHR 0x0A] @ ''3'' @ [CHR 0x0A] @ ''4''
                     @ [CHR 0x0A] @ ''5'',
      YOffset = 3\<rparr>"

text \<open>
  Run 2 (apply selection). The status with the unstaged \<open>a.txt\<close> arrives; the user
  toggles the selection on it and presses the apply key; the staging command succeeds
  and its result is applied; the refresh message is applied and the refreshed status,
  with \<open>a.txt\<close> staged, arrives.
\<close>

definition sel_loaded :: Model where
  "sel_loaded = fst (Update cursorWidgets (GitStatusMsg snapshot_a) NewModel)"

definition sel_toggled :: Model where
  "sel_toggled = fst (Update cursorWidgets (KeyMsg ''tab'') sel_loaded)"

definition sel_applied :: "Model \<times> Cmd" where
  "sel_applied = Update cursorWidgets (KeyMsg ''enter'') sel_toggled"

definition sel_staged :: Model where
  "sel_staged =
     fst (Update cursorWidgets
            (fst (toggleSelectionCmd backend_ok (getSelectedFiles sel_toggled)))
            (fst sel_applied))"

definition sel_refreshed :: Model where
  "sel_refreshed =
     fst (Update cursorWidgets (fst (refreshStatusCmd backend_ok))
            (fst (Update cursorWidgets GitRefreshMsg sel_staged)))"

text \<open>
  Run 3 (modify HEAD). From the initial model the user presses the modify-head key and
  the HEAD information arrives; run 4 continues from the menu with the amend-files key
  and a soft reset that fails.
\<close>

definition head_menu :: "Model \<times> Cmd" where
  "head_menu = Update cursorWidgets (KeyMsg ''m'') NewModel"

definition head_info_applied :: "Model \<times> Cmd" where
  "head_info_applied = Update cursorWidgets (fst (fetchHeadInfo backend_ok)) (fst head_menu)"

definition reset_dispatched :: "Model \<times> Cmd" where
  "reset_dispatched = Update cursorWidgets (KeyMsg ''f'') (fst head_menu)"

definition reset_failed :: "Model \<times> Cmd" where
  "reset_failed =
     Update cursorWidgets (fst (softResetHeadCmd backend_fail)) (fst reset_dispatched)"

text \<open>A model in the date step of the commit flow, with a draft.\<close>

definition commit_date_model :: Model where
  "commit_date_model =
     NewModel\<lparr>state := StateCommitMessage, commitState := CommitStateDate,
              commitMessage := ''fix: bug'', commitDate := []\<rparr>"

definition commit_ok_msg :: gitCommitMsg where
  "commit_ok_msg =
     \<lparr>c_success = True, c_err = None, c_message = ''[OK] Commit created successfully''\<rparr>"

definition commit_failed_msg :: gitCommitMsg where
  "commit_failed_msg = \<lparr>c_success = False, c_err = Some ''exit status 128'', c_message = []\<rparr>"

text \<open>
  Buffers for the binary detection: 100 bytes with one NUL; 1000 printable bytes; 100
  bytes of which 35 are the control byte 7; 200 bytes of which 61 (30.5 percent) are the
  control byte 7; 8 KiB of printable bytes followed by one NUL.
\<close>

definition buffer_nul :: "byte list" where
  "buffer_nul = replicate 99 97 @ [0]"

definition buffer_text :: "byte list" where
  "buffer_text = replicate 1000 97"

definition buffer_35 :: "byte list" where
  "buffer_35 = replicate 35 7 @ replicate 65 97"

definition buffer_30_5 :: "byte list" where
  "buffer_30_5 = replicate 61 7 @ replicate 139 97"

definition buffer_late_nul :: "byte list" where
  "buffer_late_nul = replicate 8192 97 @ [0]"

section \<open>Auxiliary lemmas\<close>

lemma itoa_one: "itoa (Suc 0) = ''1''"
  by (simp add: itoa.simps digit_char_def)

lemma wrap64_id: "is_int64 x \<Longrightarrow> wrap64 x = x"
  by (simp add: wrap64_def is_int64_def)

lemma isNonText_outside: "isNonText = outsideAllowed"
  by (rule ext) (auto simp: isNonText_def allowedByte_def outsideAllowed_def not_le)

lemma nonTextLoop_count: "nonTextLoop bs c = c + length (filter isNonText bs)"
  by (induction bs arbitrary: c) auto

lemma percent_above_30:
  assumes "0 < s"
  shows "30 < (n * 100) div s \<longleftrightarrow> 31 * s \<le> 100 * (n::nat)"
proof -
  have "30 < (n * 100) div s \<longleftrightarrow> 31 \<le> (n * 100) div s"
    by arith
  also have "\<dots> \<longleftrightarrow> 31 * s \<le> n * 100"
    using assms by (simp add: less_eq_div_iff_mult_less_eq)
  finally show ?thesis
    by (simp add: mult.commute)
qed

lemma outside_7: "outsideAllowed 7" and inside_97: "\<not> outsideAllowed 97"
  by (simp_all add: outsideAllowed_def allowedByte_def)

lemma isBinaryFile_sampled:
  assumes "0 \<notin> set data" and "data \<noteq> []"
  shows "isBinaryFile data \<longleftrightarrow> 31 * length (sampledPrefix data) \<le> 100 * outsideCount data"
proof -
  have size: "(if length data > 8192 then 8192 else length data) = length (sampledPrefix data)"
    by (simp add: sampledPrefix_def min_def)
  have prefix: "take (length (sampledPrefix data)) data = sampledPrefix data"
    by (simp add: sampledPrefix_def min_def)
  have pos: "0 < length (sampledPrefix data)"
    using assms(2) by (simp add: sampledPrefix_def)
  have "isBinaryFile data \<longleftrightarrow> 30 < (outsideCount data * 100) div length (sampledPrefix data)"
    unfolding isBinaryFile_def size Let_def prefix nonTextLoop_count isNonText_outside
    using assms pos by (simp add: outsideCount_def)
  then show ?thesis
    using percent_above_30 [OF pos] by simp
qed

text \<open>A NUL byte anywhere in the buffer, also beyond the sampled prefix, makes it binary.\<close>

lemma isBinaryFile_nul: "0 \<in> set data \<Longrightarrow> isBinaryFile data"
  by (simp add: isBinaryFile_def)

text \<open>
  What \<open>isBinaryFile\<close> computes, for every buffer: binary exactly when the buffer holds
  a NUL byte anywhere, or it is not empty and at least 31 percent of the sampled bytes lie
  outside the allowed set (the percentage is truncated to an integer before it is
  compared with 30).
\<close>

lemma isBinaryFile_computes:
  "isBinaryFile data \<longleftrightarrow>
     0 \<in> set data
     \<or> (data \<noteq> [] \<and> 31 * length (sampledPrefix data) \<le> 100 * outsideCount data)"
proof (cases "0 \<in> set data")
  case True
  then show ?thesis
    by (simp add: isBinaryFile_nul)
next
  case False
  show ?thesis
  proof (cases "data = []")
    case True
    then show ?thesis
      by (simp add: isBinaryFile_def)
  next
    case nonempty: False
    with False isBinaryFile_sampled [of data] show ?thesis
      by simp
  qed
qed

lemma isBinaryFile_examples:
  "isBinaryFile buffer_nul \<and> \<not> isBinaryFile buffer_text \<and> isBinaryFile buffer_35"
  by (simp add: isBinaryFile_computes buffer_nul_def buffer_text_def buffer_35_def
      sampledPrefix_def outsideCount_def outside_7 inside_97 filter_replicate)

lemma NewLayout_120_40:
  "NewLayout 120 40 =
     \<lparr>TotalWidth = 120, TotalHeight = 40, ListWidth = 60, PreviewWidth = 58, ContentHeight = 35\<rparr>"
  by (simp add: NewLayout_def wrap64_def Let_def signed_divide_int_def)

lemma stale_sized_eq:
  "stale_sized =
     NewModel\<lparr>width := 120, height := 40, ready := True, layout := NewLayout 120 40,
       list_w := \<lparr>items = [], index = 0, l_width = 56, l_height = 33\<rparr>,
       viewport := \<lparr>Width = 54, Height = 30, vp_content = [], YOffset = 0\<rparr>\<rparr>"
  by (simp add: stale_sized_def Update_def NewModel_def NewLayout_120_40 HasPreviewPane_def
      ListHeight_def wrap64_def)

lemma stale_loaded_eq:
  "stale_loaded =
     (stale_sized\<lparr>gitStatus := snapshot_ab, files := [file_a, file_b],
        list_w := \<lparr>items = [file_a, file_b], index = 0, l_width = 56, l_height = 33\<rparr>,
        lastFileIndex := 0\<rparr>,
      FetchDiffCmd file_a)"
  by (simp add: stale_loaded_def stale_sized_eq Update_def NewModel_def snapshot_ab_def
      AllFiles_def SetItems_def getCurrentFile_def file_a_def file_b_def)

lemma stale_moved_eq:
  "stale_moved =
     ((fst stale_loaded)\<lparr>
        list_w := \<lparr>items = [file_a, file_b], index = 1, l_width = 56, l_height = 33\<rparr>,
        lastFileIndex := 1, previewContent := []\<rparr>,
      Batch [CmdNil, FetchDiffCmd file_b])"
  by (simp add: stale_moved_def stale_loaded_eq stale_sized_eq Update_def NewModel_def
      handleKeyMsg_def handleFileListKeys_def Matches_def DefaultKeyMap_def listNavigate_def
      cursorWidgets_def cursorDown_def getCurrentFile_def)

lemma stale_result_eq:
  "stale_result = \<lparr>d_file = ''a.txt'', d_content = ''diff of a.txt'', d_err = None\<rparr>"
  by (simp add: stale_result_def stale_moved_eq stale_loaded_eq stale_sized_eq NewModel_def
      fetchDiffCmd_def backend_ok_def file_a_def NewFileItem_def)

lemma head_menu_eq:
  "head_menu =
     (NewModel\<lparr>state := StateModifyHead, headModifyState := HeadModifyStateMenu,
               processing := True\<rparr>, FetchHeadInfo)"
  by (simp add: head_menu_def Update_def handleKeyMsg_def handleFileListKeys_def Matches_def
      DefaultKeyMap_def NewModel_def enterModifyHeadMode_def)

section \<open>Claims\<close>

text \<open>
  C1. Claim: a diff result is applied to the preview only if its requested path equals
  the path of the currently selected file; otherwise it is discarded with no state
  change. The update loop has no such comparison. In run 1 the result for \<open>a.txt\<close>
  arrives while \<open>b.txt\<close> is selected and the preview, emptied when the cursor moved,
  is filled with the diff of \<open>a.txt\<close>.
\<close>

theorem stale_diff_is_applied:
  "snd stale_loaded = FetchDiffCmd file_a
   \<and> snd stale_moved = Batch [CmdNil, FetchDiffCmd file_b]
   \<and> getCurrentFile (fst stale_moved) = Some file_b
   \<and> Path file_b \<noteq> d_file stale_result
   \<and> previewContent (fst stale_moved) = []
   \<and> previewContent (fst stale_applied) = ''diff of a.txt''
   \<and> fst stale_applied \<noteq> fst stale_moved"
proof -
  have applied: "previewContent (fst stale_applied) = ''diff of a.txt''"
    by (simp add: stale_applied_def stale_result_eq Update_def)
  have emptied: "previewContent (fst stale_moved) = []"
    by (simp add: stale_moved_eq)
  have changed: "fst stale_applied \<noteq> fst stale_moved"
  proof
    assume "fst stale_applied = fst stale_moved"
    then have "previewContent (fst stale_applied) = previewContent (fst stale_moved)"
      by simp
    with applied emptied show False
      by simp
  qed
  have current: "getCurrentFile (fst stale_moved) = Some file_b"
    by (simp add: stale_moved_eq stale_loaded_eq getCurrentFile_def)
  have other: "Path file_b \<noteq> d_file stale_result"
    by (simp add: stale_result_eq file_b_def NewFileItem_def)
  have cmds: "snd stale_loaded = FetchDiffCmd file_a"
    "snd stale_moved = Batch [CmdNil, FetchDiffCmd file_b]"
    by (simp_all add: stale_loaded_eq stale_moved_eq)
  from cmds current other emptied applied changed show ?thesis
    by blast
qed

text \<open>
  C1, as the code has it: every diff result message is applied to the preview, whatever
  file is selected. The preview content becomes the content of the message (or
  \<open>Error loading diff: \<close> followed by the error text when the message carries an
  error) and the viewport is handed that text through its \<^verbatim>\<open>SetContent\<close>, which is
  the only change to the viewport; no other field of the model changes and no command
  is dispatched; the path in the message is not read.
\<close>

theorem diff_result_always_applied:
  "Update W (GitDiffMsg dm) m =
     (m\<lparr>previewContent :=
          (case d_err dm of None \<Rightarrow> d_content dm | Some e \<Rightarrow> ''Error loading diff: '' @ e),
        viewport :=
          viewport_SetContent W
            (case d_err dm of None \<Rightarrow> d_content dm | Some e \<Rightarrow> ''Error loading diff: '' @ e)
            (viewport m)\<rparr>,
      CmdNil)"
  by (simp add: Update_def split: option.split)

theorem diff_result_always_applied_witness:
  "Update cursorWidgets (GitDiffMsg stale_result) (NewModel\<lparr>viewport := scrolled_viewport\<rparr>) =
     (NewModel\<lparr>previewContent := ''diff of a.txt'',
        viewport := \<lparr>Width = 54, Height = 30, vp_content = ''diff of a.txt'', YOffset = 0\<rparr>\<rparr>,
      CmdNil)"
  using diff_result_always_applied
          [of cursorWidgets stale_result "NewModel\<lparr>viewport := scrolled_viewport\<rparr>"]
  by (simp add: stale_result_eq cursorWidgets_def storeContent_def lineCount_def
      scrolled_viewport_def)

text \<open>
  C2. Claim: after the apply-selection action's staging or unstaging operation succeeds
  the selection is empty. In run 2, the example of the specification, the apply key
  dispatches the staging command for \<open>a.txt\<close> together with a refresh, the command
  calls the backend's stage operation with \<open>[a.txt]\<close> and succeeds; its result is a
  status message, whose case in the update loop does not clear the selection. Position
  0 stays selected after the result is applied, and still after the refreshed status
  has replaced the file list, where it now marks the staged \<open>a.txt\<close>.
\<close>

theorem selection_survives_apply:
  "getSelectedFiles sel_toggled = [file_a\<lparr>Selected := True\<rparr>]
   \<and> snd sel_applied = Batch [ToggleSelectionCmd [file_a\<lparr>Selected := True\<rparr>], EmitMsg GitRefreshMsg]
   \<and> toggleSelectionCmd backend_ok (getSelectedFiles sel_toggled) =
       (StatusMsg ''Staged 1 file(s)'', [CallStage [''a.txt'']])
   \<and> selectedFiles sel_staged 0 = Some True
   \<and> Selected (files sel_staged ! 0)
   \<and> Staged (gitStatus sel_refreshed) = [''a.txt'']
   \<and> selectedFiles sel_refreshed 0 = Some True
   \<and> getSelectedFiles sel_refreshed = [NewFileItem ''a.txt'' StatusStaged]"
  by (simp add: sel_refreshed_def sel_staged_def sel_applied_def sel_toggled_def
      sel_loaded_def Update_def handleKeyMsg_def handleFileListKeys_def NewModel_def
      snapshot_a_def snapshot_a_staged_def AllFiles_def SetItems_def Select_def Let_def
      Matches_def DefaultKeyMap_def toggleSelection_def isSelected_def getSelectedFiles_def
      applySelection_def toggleSelectionCmd_def backend_ok_def refreshStatusCmd_def
      refreshStatus_def NewFileItem_def file_a_def enumerate_eq_zip itoa_one clearStatus_def)

text \<open>
  C3. Claim: the processing flag is set at dispatch and set back to false when the
  operation's result message is applied. In run 3 the modify-head key sets the flag and
  dispatches the fetch of the HEAD information; the result arrives and is applied, and
  the flag is still set.
\<close>

theorem processing_stays_set:
  "\<not> processing NewModel
   \<and> snd head_menu = FetchHeadInfo
   \<and> processing (fst head_menu)
   \<and> fst (fetchHeadInfo backend_ok) = GitHeadInfoMsg (Some head_info)
   \<and> headInfo (fst head_info_applied) = Some head_info
   \<and> processing (fst head_info_applied)"
  by (simp add: head_info_applied_def head_menu_eq Update_def fetchHeadInfo_def backend_ok_def
      NewModel_def)

text \<open>
  C4. Claim: after the amend-files key in the HEAD menu, the state is the file list once
  the result of the soft reset is processed, whether it succeeded or failed. In run 4
  the soft reset fails and the state is still the HEAD menu.
\<close>

theorem failed_reset_stays_in_menu:
  "state (fst head_menu) = StateModifyHead
   \<and> headModifyState (fst head_menu) = HeadModifyStateMenu
   \<and> snd reset_dispatched = SoftResetHeadCmd
   \<and> git_SoftResetHead backend_fail = Some ''exit status 128''
   \<and> state (fst reset_failed) = StateModifyHead
   \<and> state (fst reset_failed) \<noteq> StateFileList"
  by (simp add: reset_failed_def reset_dispatched_def head_menu_eq Update_def handleKeyMsg_def
      NewModel_def softResetHeadCmd_def backend_fail_def handleModifyHeadKeys_def
      handleHeadMenuKeys_def)

text \<open>
  C4, as the code has it: in the HEAD menu (no error overlay) the amend-files key sets
  the processing flag and dispatches the soft reset, the state staying the HEAD menu.
  When the result is processed: after a successful reset the state is the file list, the
  HEAD information is dropped, the status shows the success message and a refresh is
  dispatched; after a failed reset the state is unchanged, still the HEAD menu, and the
  failure is shown in the error overlay.
\<close>

theorem soft_reset_from_menu:
  assumes "state m = StateModifyHead" and "headModifyState m = HeadModifyStateMenu"
    and "err m = []"
  shows "Update W (KeyMsg ''f'') m = (m\<lparr>processing := True\<rparr>, SoftResetHeadCmd)
    \<and> (git_SoftResetHead be = None \<longrightarrow>
         Update W (fst (softResetHeadCmd be)) (m\<lparr>processing := True\<rparr>) =
           (m\<lparr>processing := True,
              status := ''[OK] HEAD soft reset successfully. Changes staged.'',
              state := StateFileList, headInfo := None\<rparr>,
            Batch [refreshStatus, clearStatus]))
    \<and> (\<forall>e. git_SoftResetHead be = Some e \<longrightarrow>
         Update W (fst (softResetHeadCmd be)) (m\<lparr>processing := True\<rparr>) =
           (m\<lparr>processing := True, err := ''Amendment failed: '' @ e\<rparr>, clearError)
         \<and> state (fst (Update W (fst (softResetHeadCmd be)) (m\<lparr>processing := True\<rparr>)))
             = StateModifyHead
         \<and> headModifyState (fst (Update W (fst (softResetHeadCmd be)) (m\<lparr>processing := True\<rparr>)))
             = HeadModifyStateMenu)"
  using assms
  by (simp add: Update_def handleKeyMsg_def handleModifyHeadKeys_def handleHeadMenuKeys_def
      softResetHeadCmd_def)

theorem soft_reset_from_menu_witness:
  "state (fst head_menu) = StateModifyHead
   \<and> headModifyState (fst head_menu) = HeadModifyStateMenu
   \<and> err (fst head_menu) = []
   \<and> Update cursorWidgets (KeyMsg ''f'') (fst head_menu) = (fst head_menu, SoftResetHeadCmd)
   \<and> state (fst (Update cursorWidgets (fst (softResetHeadCmd backend_ok)) (fst head_menu)))
       = StateFileList
   \<and> state (fst (Update cursorWidgets (fst (softResetHeadCmd backend_fail)) (fst head_menu)))
       = StateModifyHead
   \<and> err (fst (Update cursorWidgets (fst (softResetHeadCmd backend_fail)) (fst head_menu)))
       = ''Amendment failed: exit status 128''"
  using soft_reset_from_menu [of "fst head_menu" cursorWidgets backend_ok]
    soft_reset_from_menu [of "fst head_menu" cursorWidgets backend_fail]
  by (simp add: head_menu_eq NewModel_def backend_ok_def backend_fail_def)

text \<open>
  C5. When the result of the commit command arrives in the date step of the commit flow
  (state \<open>StateCommitMessage\<close> with commit sub-state \<open>CommitStateDate\<close>): if it
  carries no error, the state becomes the file list, the draft (message and date) is
  cleared, the status shows the result's message and a status refresh is dispatched; if
  it carries an error, the error overlay is set to \<open>Commit failed: \<close> and the error
  text, nothing else changes: the state is still the date step and the draft is kept.
\<close>

theorem commit_result_in_date_step:
  assumes "state m = StateCommitMessage" and "commitState m = CommitStateDate"
  shows "(c_err cm = None \<longrightarrow>
            Update W (GitCommitMsg cm) m =
              (m\<lparr>status := c_message cm, state := StateFileList,
                 commitMessage := [], commitDate := []\<rparr>,
               Batch [RefreshStatusCmd, clearStatus])
            \<and> state (fst (Update W (GitCommitMsg cm) m)) = StateFileList
            \<and> commitMessage (fst (Update W (GitCommitMsg cm) m)) = []
            \<and> commitDate (fst (Update W (GitCommitMsg cm) m)) = [])
       \<and> (\<forall>e. c_err cm = Some e \<longrightarrow>
            Update W (GitCommitMsg cm) m = (m\<lparr>err := ''Commit failed: '' @ e\<rparr>, clearError)
            \<and> err (fst (Update W (GitCommitMsg cm) m)) \<noteq> []
            \<and> state (fst (Update W (GitCommitMsg cm) m)) = StateCommitMessage
            \<and> commitState (fst (Update W (GitCommitMsg cm) m)) = CommitStateDate
            \<and> commitMessage (fst (Update W (GitCommitMsg cm) m)) = commitMessage m
            \<and> commitDate (fst (Update W (GitCommitMsg cm) m)) = commitDate m)"
  using assms by (simp add: Update_def refreshStatus_def)

theorem commit_result_in_date_step_witness:
  "state commit_date_model = StateCommitMessage
   \<and> commitState commit_date_model = CommitStateDate
   \<and> fst (commitCmd backend_ok ''fix: bug'' []) = GitCommitMsg commit_ok_msg
   \<and> state (fst (Update cursorWidgets (GitCommitMsg commit_ok_msg) commit_date_model))
       = StateFileList
   \<and> commitMessage (fst (Update cursorWidgets (GitCommitMsg commit_ok_msg) commit_date_model))
       = []
   \<and> snd (Update cursorWidgets (GitCommitMsg commit_ok_msg) commit_date_model)
       = Batch [RefreshStatusCmd, clearStatus]
   \<and> fst (commitCmd backend_fail ''fix: bug'' []) = GitCommitMsg commit_failed_msg
   \<and> err (fst (Update cursorWidgets (GitCommitMsg commit_failed_msg) commit_date_model))
       = ''Commit failed: exit status 128''
   \<and> state (fst (Update cursorWidgets (GitCommitMsg commit_failed_msg) commit_date_model))
       = StateCommitMessage
   \<and> commitMessage (fst (Update cursorWidgets (GitCommitMsg commit_failed_msg) commit_date_model))
       = ''fix: bug''"
  using commit_result_in_date_step [of commit_date_model commit_ok_msg cursorWidgets]
    commit_result_in_date_step [of commit_date_model commit_failed_msg cursorWidgets]
  by (simp add: commit_date_model_def commit_ok_msg_def commit_failed_msg_def NewModel_def
      commitCmd_def backend_ok_def backend_fail_def refreshStatus_def)

text \<open>
  C6. Claim: for every width below 100 the preview pane is disabled and the list width
  is the width minus 2. At width 20 the list width is 30, not 18: the minimum list width
  applies after the split.
\<close>

theorem narrow_layout_is_clamped:
  "(20::int) < 100 \<and> ListWidth (NewLayout 20 24) = 30 \<and> ListWidth (NewLayout 20 24) \<noteq> 20 - 2"
  by (simp add: NewLayout_def wrap64_def Let_def)

text \<open>
  C6, as the code has it: for every width below 100 and any height the preview pane is
  disabled (its width is 0); the list width is the width minus 2 when the width is at
  least 32, and the minimum 30 when the width is below 32 (for widths from which 2 can
  be subtracted without leaving the range of a 64-bit integer).
\<close>

theorem layout_below_100:
  assumes "w < 100"
  shows "\<not> HasPreviewPane (NewLayout w h) \<and> PreviewWidth (NewLayout w h) = 0
       \<and> (32 \<le> w \<longrightarrow> ListWidth (NewLayout w h) = w - 2)
       \<and> (- (2 ^ 63) + 2 \<le> w \<and> w < 32 \<longrightarrow> ListWidth (NewLayout w h) = 30)"
proof -
  have disabled: "\<not> HasPreviewPane (NewLayout w h) \<and> PreviewWidth (NewLayout w h) = 0"
    using assms by (simp add: NewLayout_def Let_def HasPreviewPane_def)
  have wide: "ListWidth (NewLayout w h) = w - 2" if "32 \<le> w"
  proof -
    have "is_int64 (w - 2)"
      using that assms by (simp add: is_int64_def)
    then have "wrap64 (w - 2) = w - 2"
      by (rule wrap64_id)
    then show ?thesis
      using that assms by (simp add: NewLayout_def Let_def)
  qed
  have narrow: "ListWidth (NewLayout w h) = 30" if "- (2 ^ 63) + 2 \<le> w" and "w < 32"
  proof -
    have "is_int64 (w - 2)"
      using that by (simp add: is_int64_def)
    then have "wrap64 (w - 2) = w - 2"
      by (rule wrap64_id)
    then show ?thesis
      using that by (simp add: NewLayout_def Let_def)
  qed
  from disabled wide narrow show ?thesis
    by blast
qed

theorem layout_below_100_witness:
  "(80::int) < 100 \<and> \<not> HasPreviewPane (NewLayout 80 24) \<and> ListWidth (NewLayout 80 24) = 78
   \<and> (20::int) < 100 \<and> \<not> HasPreviewPane (NewLayout 20 24) \<and> ListWidth (NewLayout 20 24) = 30"
  using layout_below_100 [of 80 24] layout_below_100 [of 20 24]
  by simp

text \<open>
  C7. Claim: a buffer is binary exactly when its sampled prefix (the first 8 KiB) holds
  a NUL byte or more than 30 percent of the sampled bytes lie outside the allowed set;
  this is also what the comments of \<^verbatim>\<open>isBinaryFile\<close> say. The code departs from it
  on two inputs. Of the 200 bytes of \<open>buffer_30_5\<close>, none NUL, 61 lie outside the
  allowed set, which is 30.5 percent: the claim makes the buffer binary, the code, which
  compares the percentage after integer division, classifies it as text. The sampled
  prefix of \<open>buffer_late_nul\<close> is 8192 printable bytes, the only NUL is the byte after
  it: the claim makes the buffer text, the code, which looks for a NUL in the whole
  buffer, classifies it as binary.
\<close>

theorem binary_detection_failing_inputs:
  "0 \<notin> set buffer_30_5 \<and> length (sampledPrefix buffer_30_5) = 200
   \<and> outsideCount buffer_30_5 = 61
   \<and> spec_isBinary buffer_30_5 \<and> \<not> isBinaryFile buffer_30_5
   \<and> length buffer_late_nul = 8193 \<and> 0 \<notin> set (sampledPrefix buffer_late_nul)
   \<and> outsideCount buffer_late_nul = 0
   \<and> \<not> spec_isBinary buffer_late_nul \<and> isBinaryFile buffer_late_nul"
proof -
  have nonText: "isNonText 7" "\<not> isNonText 97"
    by (simp_all add: isNonText_def)
  have percent: "0 \<notin> set buffer_30_5 \<and> length (sampledPrefix buffer_30_5) = 200
      \<and> outsideCount buffer_30_5 = 61
      \<and> spec_isBinary buffer_30_5 \<and> \<not> isBinaryFile buffer_30_5"
    by (simp add: buffer_30_5_def spec_isBinary_def isBinaryFile_def sampledPrefix_def
        outsideCount_def nonTextLoop_count nonText outside_7 inside_97 filter_replicate)
  have prefix: "sampledPrefix buffer_late_nul = replicate 8192 97"
    by (simp add: buffer_late_nul_def sampledPrefix_def)
  have late: "length buffer_late_nul = 8193 \<and> 0 \<notin> set (sampledPrefix buffer_late_nul)
      \<and> outsideCount buffer_late_nul = 0 \<and> \<not> spec_isBinary buffer_late_nul"
    by (simp add: spec_isBinary_def outsideCount_def prefix inside_97 filter_replicate)
       (simp add: buffer_late_nul_def)
  have "isBinaryFile buffer_late_nul"
    by (simp add: isBinaryFile_def buffer_late_nul_def)
  with percent late show ?thesis
    by blast
qed

text \<open>
  C8. Claim: for every path, two diff-fetch requests with no invalidation in between
  make exactly one backend diff call, the first populating the cache. When the backend's
  diff fails, the first request caches nothing and the second request calls the backend
  again: two diff calls.
\<close>

theorem failed_diff_is_fetched_again:
  "first_calls (fetchTwice backend_fail backend_fail file_a file_a Map.empty)
     = [CallDiff ''a.txt'' False]
   \<and> cache_after_first (fetchTwice backend_fail backend_fail file_a file_a Map.empty) ''a.txt''
     = None
   \<and> second_calls (fetchTwice backend_fail backend_fail file_a file_a Map.empty)
     = [CallDiff ''a.txt'' False]
   \<and> diffCallCount (fetchTwice backend_fail backend_fail file_a file_a Map.empty) = 2"
  by (simp add: fetchTwice_def fetchDiffCmd_def file_a_def NewFileItem_def backend_fail_def
      diffCallCount_def)

text \<open>
  C8, as the code has it: for every staged or unstaged file that is not yet cached and
  whose backend diff call succeeds, two diff-fetch requests for its path with nothing
  touching the cache in between make exactly one backend diff call; the first request
  stores the text it returns in the cache, and the second request, whatever the backend
  would answer then, makes no backend call at all, leaves the cache as it is and returns
  the same message, with the identical text.
\<close>

theorem diff_cache_single_call:
  assumes "Status file1 \<noteq> StatusUntracked"
    and "Path file2 = Path file1"
    and "cache (Path file1) = None"
    and "git_Diff be1 (Path file1) (Status file1 = StatusStaged) = Inr text"
  shows "diffCallCount (fetchTwice be1 be2 file1 file2 cache) = 1
    \<and> cache_after_first (fetchTwice be1 be2 file1 file2 cache) (Path file1)
        = Some (d_content (first_msg (fetchTwice be1 be2 file1 file2 cache)))
    \<and> second_calls (fetchTwice be1 be2 file1 file2 cache) = []
    \<and> second_msg (fetchTwice be1 be2 file1 file2 cache)
        = first_msg (fetchTwice be1 be2 file1 file2 cache)
    \<and> cache_after_second (fetchTwice be1 be2 file1 file2 cache)
        = cache_after_first (fetchTwice be1 be2 file1 file2 cache)"
  using assms
  by (cases "Status file1")
     (auto simp: fetchTwice_def fetchDiffCmd_def diffCallCount_def Let_def
           split: sum.splits)

theorem diff_cache_single_call_witness:
  "Status file_a \<noteq> StatusUntracked
   \<and> git_Diff backend_ok (Path file_a) (Status file_a = StatusStaged) = Inr ''diff of a.txt''
   \<and> first_calls (fetchTwice backend_ok backend_fail file_a file_a Map.empty)
       = [CallDiff ''a.txt'' False]
   \<and> second_calls (fetchTwice backend_ok backend_fail file_a file_a Map.empty) = []
   \<and> diffCallCount (fetchTwice backend_ok backend_fail file_a file_a Map.empty) = 1
   \<and> d_content (second_msg (fetchTwice backend_ok backend_fail file_a file_a Map.empty))
       = ''diff of a.txt''"
  using diff_cache_single_call [of file_a file_a Map.empty backend_ok "''diff of a.txt''" backend_fail]
  by (simp add: fetchTwice_def fetchDiffCmd_def file_a_def NewFileItem_def backend_ok_def
      diffCallCount_def)

text \<open>
  C9. In the file list with no staged file, pressing the commit key (the key \<open>c\<close> of
  the default bindings) makes no state transition: the handler returns the model with
  only the status set to \<open>No files staged\<close>, and the command that clears the status
  after its delay. The same holds for the update loop when no error overlay is shown.
  The state is still the file list and the commit sub-state, message, date and inputs
  are unchanged. The status is ephemeral: the message that the returned command delivers
  empties it again.
\<close>

theorem commit_key_without_staged_files:
  assumes "state m = StateFileList" and "StagedCount (gitStatus m) = 0"
    and "keys m = DefaultKeyMap" and "Matches k (Commit (keys m))"
  shows "handleFileListKeys W k m = (m\<lparr>status := ''No files staged''\<rparr>, clearStatus)
    \<and> clearStatus = Tick 2 (StatusMsg [])
    \<and> state (fst (handleFileListKeys W k m)) = StateFileList
    \<and> commitState (fst (handleFileListKeys W k m)) = commitState m
    \<and> commitMessage (fst (handleFileListKeys W k m)) = commitMessage m
    \<and> commitDate (fst (handleFileListKeys W k m)) = commitDate m
    \<and> commitTextarea (fst (handleFileListKeys W k m)) = commitTextarea m
    \<and> commitInput (fst (handleFileListKeys W k m)) = commitInput m
    \<and> (err m = [] \<longrightarrow> Update W (KeyMsg k) m = handleFileListKeys W k m)
    \<and> Update W (StatusMsg []) (fst (handleFileListKeys W k m)) = (m\<lparr>status := []\<rparr>, CmdNil)"
proof -
  from assms(3,4) have k: "k = ''c''"
    by (simp add: Matches_def DefaultKeyMap_def)
  have handler: "handleFileListKeys W k m = (m\<lparr>status := ''No files staged''\<rparr>, clearStatus)"
    using assms(1-3) unfolding k
    by (simp add: handleFileListKeys_def Matches_def DefaultKeyMap_def)
  have loop: "Update W (KeyMsg k) m = handleFileListKeys W k m" if "err m = []"
    using that assms(1) by (simp add: Update_def handleKeyMsg_def)
  have cleared:
    "Update W (StatusMsg []) (m\<lparr>status := ''No files staged''\<rparr>) = (m\<lparr>status := []\<rparr>, CmdNil)"
    by (simp add: Update_def)
  from handler loop cleared assms(1) show ?thesis
    by (simp add: clearStatus_def)
qed

theorem commit_key_without_staged_files_witness:
  "state sel_loaded = StateFileList \<and> StagedCount (gitStatus sel_loaded) = 0
   \<and> keys sel_loaded = DefaultKeyMap \<and> Matches ''c'' (Commit (keys sel_loaded))
   \<and> err sel_loaded = []
   \<and> Update cursorWidgets (KeyMsg ''c'') sel_loaded
       = (sel_loaded\<lparr>status := ''No files staged''\<rparr>, Tick 2 (StatusMsg []))"
proof -
  have loaded: "state sel_loaded = StateFileList \<and> StagedCount (gitStatus sel_loaded) = 0
      \<and> keys sel_loaded = DefaultKeyMap \<and> err sel_loaded = []"
    by (simp add: sel_loaded_def Update_def NewModel_def snapshot_a_def StagedCount_def
        AllFiles_def SetItems_def)
  moreover have key: "Matches ''c'' (Commit (keys sel_loaded))"
    using loaded by (simp add: Matches_def DefaultKeyMap_def)
  ultimately show ?thesis
    using commit_key_without_staged_files [of sel_loaded "''c''" cursorWidgets]
    by simp
qed

text \<open>
  C10. For every index outside the range of the file list, \<open>toggleSelection\<close> returns
  the model unchanged: the selection map, the selection flags of the files and the
  items shown by the list are what they were.
\<close>

theorem toggleSelection_out_of_range:
  assumes "idx < 0 \<or> int (length (files m)) \<le> idx"
  shows "toggleSelection idx m = m
    \<and> selectedFiles (toggleSelection idx m) = selectedFiles m
    \<and> files (toggleSelection idx m) = files m
    \<and> items (list_w (toggleSelection idx m)) = items (list_w m)"
  using assms by (auto simp: toggleSelection_def)

theorem toggleSelection_out_of_range_witness:
  "length (files sel_loaded) = 1
   \<and> toggleSelection 1 sel_loaded = sel_loaded
   \<and> toggleSelection (- 1) sel_loaded = sel_loaded
   \<and> selectedFiles (toggleSelection 1 sel_loaded) 1 = None"
proof -
  have len: "length (files sel_loaded) = 1" and sel: "selectedFiles sel_loaded = Map.empty"
    by (simp_all add: sel_loaded_def Update_def NewModel_def snapshot_a_def AllFiles_def
        SetItems_def)
  then show ?thesis
    using toggleSelection_out_of_range [of 1 sel_loaded]
      toggleSelection_out_of_range [of "- 1" sel_loaded]
    by simp
qed

end
